theory Spec2Isabelle
  imports Complex_Main "HOL-Library.Word"
begin

section \<open>Strings and numbers of the host language\<close>

text \<open>
  A JavaScript string is a sequence of 16-bit code units. Text that the program writes
  as a literal is ASCII and is injected with \<open>js\<close>.
\<close>

type_synonym jsstring = "16 word list"

definition js :: "string \<Rightarrow> jsstring" where
  "js s = map of_char s"

text \<open>
  \<open>String.prototype.trim\<close> removes the code units of the ECMAScript productions
  WhiteSpace (TAB, VT, FF, ZWNBSP and the Unicode category Zs) and LineTerminator
  (LF, CR, LS, PS) from both ends.
\<close>

definition isWhiteSpace :: "16 word \<Rightarrow> bool" where
  "isWhiteSpace c \<longleftrightarrow>
     c = 0x0009 \<or> c = 0x000B \<or> c = 0x000C \<or> c = 0xFEFF \<or>
     c = 0x0020 \<or> c = 0x00A0 \<or> c = 0x1680 \<or> (0x2000 \<le> c \<and> c \<le> 0x200A) \<or>
     c = 0x202F \<or> c = 0x205F \<or> c = 0x3000 \<or>
     c = 0x000A \<or> c = 0x000D \<or> c = 0x2028 \<or> c = 0x2029"

definition trim :: "jsstring \<Rightarrow> jsstring" where
  "trim s = rev (dropWhile isWhiteSpace (rev (dropWhile isWhiteSpace s)))"

text \<open>
  The decimal text of a non-negative integer, as a template literal produces it for
  \<open>response.status\<close> and for an array length.
\<close>

definition digitChar :: "nat \<Rightarrow> 16 word" where
  "digitChar d = of_nat (48 + d)"

fun numberToString :: "nat \<Rightarrow> jsstring" where
  "numberToString n =
     (if n < 10 then [digitChar n] else numberToString (n div 10) @ [digitChar (n mod 10)])"

declare numberToString.simps [simp del]

text \<open>The inverse reading of a digit string, used to check \<open>numberToString\<close>.\<close>

definition digitsToNumber :: "jsstring \<Rightarrow> nat" where
  "digitsToNumber s = foldl (\<lambda>acc c. 10 * acc + (unat c - 48)) 0 s"

text \<open>
  A strict reader of decimal numerals: it accepts a non-empty string of the code units
  \<open>0\<close> to \<open>9\<close> without a leading zero (the string \<open>0\<close> itself apart) and nothing else,
  so that at most one string reads as a given number.
\<close>

definition isDigit :: "16 word \<Rightarrow> bool" where
  "isDigit c \<longleftrightarrow> 0x30 \<le> c \<and> c \<le> 0x39"

definition readDecimal :: "jsstring \<Rightarrow> nat option" where
  "readDecimal s =
     (case s of
        [] \<Rightarrow> None
      | c # cs \<Rightarrow>
          if list_all isDigit s \<and> (c \<noteq> 0x30 \<or> cs = [])
          then Some (digitsToNumber s) else None)"

text \<open>
  A JavaScript number that came out of \<open>JSON.parse\<close> is a finite double, a negative
  zero or, for a literal that overflows, an infinity; NaN cannot occur. A number is
  modelled by its rational value. Negative zero is identified with zero, and the
  infinities are not represented. The tests the program makes, truthiness and
  \<open>=== 0\<close>, treat negative zero as zero, so they are modelled exactly on every finite
  number. The host formatter can tell negative zero from zero: the text it returns for
  negative zero is outside this model.
\<close>

type_synonym number = rat

text \<open>
  A property that may be absent. Reading an absent property gives \<open>undefined\<close>; JSON
  can also carry an explicit \<open>null\<close>.
\<close>

datatype 'a optional = Undefined | Null | Present 'a

section \<open>Data model\<close>

record PriceTier =
  qty :: number
  price :: number

record Product =
  product_id :: number
  name :: jsstring
  sku :: jsstring
  barcode :: jsstring
  cogs :: number
  selling_price :: number
  selling_price_2 :: "number optional"
  stock :: number
  price_tiers :: "PriceTier list optional"

text \<open>
  The parsed body, as interface \<open>ApiResponse\<close> declares it, widened by what the guard
  \<open>data.products &&\<close> is there for: the field may be missing or null. A body that is
  a number, a string, a boolean or an array has no \<open>products\<close> property either and reads
  as \<open>Undefined\<close>. When the field is present and not null it is an array.
\<close>

record ApiResponse =
  status :: jsstring
  products :: "Product list optional"

section \<open>The environment\<close>

text \<open>
  A value caught by \<open>catch (err)\<close>: the handler only asks whether it is an
  \<open>Error\<close> instance and, if so, reads its message.
\<close>

datatype thrown = ErrorObject jsstring | OtherValue

text \<open>
  What \<open>response.json()\<close> does: it rejects (the body is not JSON), or resolves to
  \<open>null\<close>, or to a value whose \<open>products\<close> property can be read.
\<close>

datatype json_outcome = JsonRejects thrown | JsonNull | JsonValue ApiResponse

text \<open>What \<open>fetch\<close> does: it rejects, or resolves to a response with a status code.\<close>

datatype fetch_outcome = FetchRejects thrown | Response nat json_outcome

text \<open>\<open>response.ok\<close> is true exactly for the status codes 200 to 299.\<close>

definition ok :: "nat \<Rightarrow> bool" where
  "ok st \<longleftrightarrow> 200 \<le> st \<and> st \<le> 299"

text \<open>
  The host functions the component calls. \<open>encodeURIComponent\<close> throws a
  \<open>URIError\<close> on a lone surrogate; \<open>nullPropertyMessage\<close> is the message of the
  \<open>TypeError\<close> the engine raises when a property of \<open>null\<close> is read.
\<close>

record NumberFormatOptions =
  style :: jsstring
  currency :: jsstring
  minimumFractionDigits :: nat

record host =
  encodeURIComponent :: "jsstring \<Rightarrow> thrown + jsstring"
  fetch :: "jsstring \<Rightarrow> fetch_outcome"
  nullPropertyMessage :: jsstring
  numberFormat :: "jsstring \<Rightarrow> NumberFormatOptions \<Rightarrow> number \<Rightarrow> jsstring"

section \<open>Component state and effects\<close>

record toast_options =
  title :: jsstring
  description :: jsstring
  variant :: "jsstring option"

text \<open>
  The four \<open>useState\<close> cells of the component, together with the two effects that
  leave it: the notifications shown and the URLs requested, oldest first.
\<close>

record world =
  barcode_state :: jsstring
  products_state :: "Product list"
  loading :: bool
  error :: jsstring
  toasts :: "toast_options list"
  requests :: "jsstring list"

definition toast :: "toast_options \<Rightarrow> world \<Rightarrow> world" where
  "toast t w = w\<lparr>toasts := toasts w @ [t]\<rparr>"

definition setLoading :: "bool \<Rightarrow> world \<Rightarrow> world" where
  "setLoading b w = w\<lparr>loading := b\<rparr>"

definition setError :: "jsstring \<Rightarrow> world \<Rightarrow> world" where
  "setError e w = w\<lparr>error := e\<rparr>"

definition setProducts :: "Product list \<Rightarrow> world \<Rightarrow> world" where
  "setProducts ps w = w\<lparr>products_state := ps\<rparr>"

section \<open>searchProducts\<close>

definition endpoint :: jsstring where
  "endpoint = js ''https://hw.blicyber.web.id/admin/products/barcode?barcode=''"

definition emptyBarcodeToast :: toast_options where
  "emptyBarcodeToast =
     \<lparr>title = js ''Please enter a barcode'',
      description = js ''Enter a product barcode to search'',
      variant = Some (js ''destructive'')\<rparr>"

text \<open>The \<open>catch\<close> block (lines 76 to 83) and the \<open>finally\<close> block (lines 84 to 86).\<close>

definition catchBlock :: "thrown \<Rightarrow> world \<Rightarrow> world" where
  "catchBlock err w =
     (let errorMessage =
            (case err of ErrorObject m \<Rightarrow> m | OtherValue \<Rightarrow> js ''Failed to fetch products'')
      in toast \<lparr>title = js ''Search failed'', description = errorMessage,
                 variant = Some (js ''destructive'')\<rparr>
           (setError errorMessage w))"

definition finallyBlock :: "world \<Rightarrow> world" where
  "finallyBlock w = setLoading False w"

text \<open>
  The \<open>try\<close> block from the point where \<open>fetch\<close> has settled (lines 56 to 75). Every
  throw in it comes before its first state update, so a throw carries no state.
\<close>

definition noProductsFound :: "world \<Rightarrow> world" where
  "noProductsFound w =
     toast \<lparr>title = js ''No results'',
            description = js ''No products found for this barcode'',
            variant = Some (js ''destructive'')\<rparr>
       (setError (js ''No products found for this barcode'') w)"

text \<open>
  Lines 62 to 75. \<open>data.products && data.products.length > 0\<close> is falsy when the field
  is \<open>undefined\<close> or \<open>null\<close>, and otherwise compares the length of the array.
\<close>

definition handleData :: "ApiResponse \<Rightarrow> world \<Rightarrow> world" where
  "handleData data w =
     (case products data of
        Undefined \<Rightarrow> noProductsFound w
      | Null \<Rightarrow> noProductsFound w
      | Present ps \<Rightarrow>
          if 0 < length ps then
            toast \<lparr>title = js ''Products found'',
                   description = js ''Found '' @ numberToString (length ps) @ js '' product(s)'',
                   variant = None\<rparr>
              (setProducts ps w)
          else noProductsFound w)"

definition tryBody :: "host \<Rightarrow> fetch_outcome \<Rightarrow> world \<Rightarrow> thrown + world" where
  "tryBody h out w =
     (case out of
        FetchRejects err \<Rightarrow> Inl err
      | Response st body \<Rightarrow>
          if \<not> ok st then
            Inl (ErrorObject (js ''HTTP error! status: '' @ numberToString st))
          else
            (case body of
               JsonRejects err \<Rightarrow> Inl err
             | JsonNull \<Rightarrow> Inl (ErrorObject (nullPropertyMessage h))
             | JsonValue data \<Rightarrow> Inr (handleData data w)))"

text \<open>
  An \<open>async\<close> function runs up to its first \<open>await\<close> and is resumed when the awaited
  promise settles. \<open>searchProducts_start\<close> is the part before \<open>await fetch(...)\<close>
  (lines 38 to 54): it either returns, or it has issued the request and waits.
  \<open>searchProducts_resume\<close> is the rest. No state is written between the two awaits of
  the source, so they are resumed as one.
\<close>

datatype suspension = Returned world | AwaitingFetch jsstring world

definition searchProducts_start :: "host \<Rightarrow> world \<Rightarrow> suspension" where
  "searchProducts_start h w =
     (if trim (barcode_state w) = [] then Returned (toast emptyBarcodeToast w)
      else
        let w1 = setProducts [] (setError [] (setLoading True w)) in
        (case encodeURIComponent h (trim (barcode_state w)) of
           Inl err \<Rightarrow> Returned (finallyBlock (catchBlock err w1))
         | Inr q \<Rightarrow> AwaitingFetch (endpoint @ q) (w1\<lparr>requests := requests w1 @ [endpoint @ q]\<rparr>)))"

definition searchProducts_resume :: "host \<Rightarrow> fetch_outcome \<Rightarrow> world \<Rightarrow> world" where
  "searchProducts_resume h out w =
     finallyBlock (case tryBody h out w of Inl err \<Rightarrow> catchBlock err w | Inr w' \<Rightarrow> w')"

definition searchProducts :: "host \<Rightarrow> world \<Rightarrow> world" where
  "searchProducts h w =
     (case searchProducts_start h w of
        Returned w' \<Rightarrow> w'
      | AwaitingFetch url w' \<Rightarrow> searchProducts_resume h (fetch h url) w')"

section \<open>Rendering a product card\<close>

text \<open>
  \<open>formatPrice\<close> (lines 95 to 101) asks the host's \<open>Intl.NumberFormat\<close> for the
  locale \<open>id-ID\<close> with the three options it sets; what comes back is the host's.
\<close>

definition formatPrice :: "host \<Rightarrow> number \<Rightarrow> jsstring" where
  "formatPrice h p =
     numberFormat h (js ''id-ID'')
       \<lparr>style = js ''currency'', currency = js ''IDR'', minimumFractionDigits = 0\<rparr> p"

text \<open>
  What a JSX expression evaluates to: an element with its tag, its \<open>className\<close> and
  its children, a string, a number (shown as its decimal text), a value that shows nothing
  (\<open>false\<close>, \<open>null\<close>, \<open>undefined\<close>), or an array of children. The \<open>key\<close> and
  the animation delay of a card are not kept.
\<close>

datatype node =
    Element string jsstring "node list"
  | Text jsstring
  | Number number
  | Nothing
  | NodeList "node list"

text \<open>\<open>Array.prototype.slice\<close> for bounds \<open>0 \<le> start \<le> end\<close>.\<close>

definition slice :: "nat \<Rightarrow> nat \<Rightarrow> 'a list \<Rightarrow> 'a list" where
  "slice start end xs = take (end - start) (drop start xs)"

definition labelSpan :: "string \<Rightarrow> node" where
  "labelSpan l = Element ''span'' (js ''text-muted-foreground'') [Text (js l)]"

text \<open>
  Lines 203 to 208. \<open>a && b\<close> is \<open>a\<close> itself when \<open>a\<close> is falsy; a number is
  falsy exactly when it is zero.
\<close>

definition price2Row :: "host \<Rightarrow> Product \<Rightarrow> node" where
  "price2Row h product =
     (case selling_price_2 product of
        Undefined \<Rightarrow> Nothing
      | Null \<Rightarrow> Nothing
      | Present v \<Rightarrow>
          if v = 0 then Number v
          else Element ''div'' (js ''flex justify-between text-sm'')
                 [labelSpan ''Price 2:'',
                  Element ''span'' (js ''font-semibold'') [Text (formatPrice h v)]])"

text \<open>Lines 212 to 214.\<close>

definition stockSpan :: "Product \<Rightarrow> node" where
  "stockSpan product =
     Element ''span''
       (js ''font-semibold '' @
          (if stock product = 0 then js ''text-destructive'' else js ''text-green-600''))
       [Number (stock product), Text (js '' units'')]"

text \<open>Lines 227 to 230, and the indicator of lines 233 to 235.\<close>

definition tierRow :: "host \<Rightarrow> PriceTier \<Rightarrow> node" where
  "tierRow h tier =
     Element ''div'' (js ''flex justify-between text-xs'')
       [Element ''span'' (js ''text-muted-foreground'') [Number (qty tier), Text (js ''+ units:'')],
        Element ''span'' (js ''font-medium'') [Text (formatPrice h (price tier))]]"

definition moreTiers :: "number \<Rightarrow> node" where
  "moreTiers n =
     Element ''div'' (js ''text-xs text-muted-foreground text-center'')
       [Text (js ''+''), Number n, Text (js '' more tiers'')]"

text \<open>Lines 219 to 239. An array is truthy even when it is empty.\<close>

definition priceTiers :: "host \<Rightarrow> Product \<Rightarrow> node" where
  "priceTiers h product =
     (case price_tiers product of
        Undefined \<Rightarrow> Nothing
      | Null \<Rightarrow> Nothing
      | Present tiers \<Rightarrow>
          if 0 < length tiers then
            Element ''div'' (js ''border-t pt-3'')
              [Element ''div'' (js ''flex items-center gap-2 mb-2'')
                 [Element ''DollarSign'' (js ''h-4 w-4 text-muted-foreground'') [],
                  Element ''span'' (js ''text-sm font-medium'') [Text (js ''Price Tiers'')]],
               Element ''div'' (js ''space-y-1'')
                 [NodeList (map (tierRow h) (slice 0 3 tiers)),
                  if 3 < length tiers then moreTiers (of_nat (length tiers) - 3) else Nothing]]
          else Nothing)"

text \<open>Lines 166 to 241: the card of one product.\<close>

definition productCard :: "host \<Rightarrow> Product \<Rightarrow> node" where
  "productCard h product =
     Element ''Card'' (js ''animate-fade-in hover:shadow-lg transition-all duration-200'')
       [Element ''CardHeader'' (js ''pb-3'')
          [Element ''div'' (js ''flex items-start gap-3'')
             [Element ''div'' (js ''p-2 bg-primary/10 rounded-lg'')
                [Element ''Package'' (js ''h-6 w-6 text-primary'') []],
              Element ''div'' (js ''flex-1'')
                [Element ''CardTitle'' (js ''text-lg font-semibold line-clamp-2'')
                   [Text (name product)],
                 Element ''p'' (js ''text-sm text-muted-foreground mt-1'')
                   [Text (js ''SKU: ''), Text (sku product)]]]],
        Element ''CardContent'' (js ''space-y-3'')
          [Element ''div'' (js ''space-y-2'')
             [Element ''div'' (js ''flex justify-between text-sm'')
                [labelSpan ''Barcode:'',
                 Element ''span'' (js ''font-mono'') [Text (barcode product)]],
              Element ''div'' (js ''flex justify-between text-sm'')
                [labelSpan ''COGS:'',
                 Element ''span'' (js ''font-semibold'') [Text (formatPrice h (cogs product))]],
              Element ''div'' (js ''flex justify-between text-sm'')
                [labelSpan ''Selling Price:'',
                 Element ''span'' (js ''font-semibold text-primary'')
                   [Text (formatPrice h (selling_price product))]],
              price2Row h product,
              Element ''div'' (js ''flex justify-between text-sm'')
                [labelSpan ''Stock:'', stockSpan product]],
           priceTiers h product]]"

section \<open>Queries on a rendered tree\<close>

text \<open>
  \<open>findAll P n\<close> lists, in document order, the nodes of \<open>n\<close> that satisfy \<open>P\<close>.
  \<open>hasClass c\<close> holds of the elements whose \<open>className\<close> is \<open>c\<close>; \<open>hasLabel l\<close>
  holds of the elements whose first child is the label span with the text \<open>l\<close>.
\<close>

fun findAll :: "(node \<Rightarrow> bool) \<Rightarrow> node \<Rightarrow> node list" where
  "findAll P (Element t c kids) =
     (if P (Element t c kids) then [Element t c kids] else []) @ concat (map (findAll P) kids)"
| "findAll P (NodeList kids) = concat (map (findAll P) kids)"
| "findAll P (Text s) = (if P (Text s) then [Text s] else [])"
| "findAll P (Number n) = (if P (Number n) then [Number n] else [])"
| "findAll P Nothing = []"

fun hasClass :: "jsstring \<Rightarrow> node \<Rightarrow> bool" where
  "hasClass c (Element t c' kids) = (c' = c)"
| "hasClass c n = False"

fun hasLabel :: "string \<Rightarrow> node \<Rightarrow> bool" where
  "hasLabel l (Element t c (k # kids)) = (k = labelSpan l)"
| "hasLabel l n = False"

section \<open>Sample inputs\<close>

definition sampleTiers :: "PriceTier list" where
  "sampleTiers =
     [\<lparr>qty = 6, price = 24000\<rparr>, \<lparr>qty = 12, price = 23000\<rparr>, \<lparr>qty = 24, price = 22000\<rparr>,
      \<lparr>qty = 48, price = 21000\<rparr>, \<lparr>qty = 96, price = 20000\<rparr>]"

definition sampleProduct :: Product where
  "sampleProduct =
     \<lparr>product_id = 7, name = js ''Bir Bintang'', sku = js ''BB-330'', barcode = js ''8991234'',
      cogs = 18000, selling_price = 25000, selling_price_2 = Undefined, stock = 12,
      price_tiers = Undefined\<rparr>"

definition sampleBody :: "Product list optional \<Rightarrow> ApiResponse" where
  "sampleBody ps = \<lparr>status = js ''success'', products = ps\<rparr>"

text \<open>
  A host whose \<open>fetch\<close> settles as given. The sample barcode consists of digits, which
  \<open>encodeURIComponent\<close> leaves as they are.
\<close>

definition sampleHost :: "fetch_outcome \<Rightarrow> host" where
  "sampleHost out =
     \<lparr>encodeURIComponent = Inr, fetch = (\<lambda>url. out),
      nullPropertyMessage = js ''Cannot read properties of null'',
      numberFormat = (\<lambda>locale opts n. js ''Rp'')\<rparr>"

text \<open>
  A host whose formatter writes out what it was given: the locale, the three options and
  the integer part of the number.
\<close>

definition echoHost :: host where
  "echoHost =
     \<lparr>encodeURIComponent = Inr, fetch = (\<lambda>url. FetchRejects OtherValue),
      nullPropertyMessage = js ''Cannot read properties of null'',
      numberFormat =
        (\<lambda>locale opts n.
           locale @ js '' '' @ style opts @ js '' '' @ currency opts @ js '' '' @
           numberToString (minimumFractionDigits opts) @ js '' '' @
           numberToString (nat \<lfloor>n\<rfloor>))\<rparr>"

text \<open>A state left behind by an earlier search: an old result and an old error.\<close>

definition sampleWorld :: "jsstring \<Rightarrow> world" where
  "sampleWorld b =
     \<lparr>barcode_state = b, products_state = [sampleProduct], loading = False,
      error = js ''No products found for this barcode'', toasts = [], requests = []\<rparr>"

section \<open>Helper facts\<close>

lemma js_Nil: "js [] = []"
  by (simp add: js_def)

lemma js_eq_Nil_iff: "js s = [] \<longleftrightarrow> s = []"
  by (simp add: js_def)

lemma unat_js_char: "unat (of_char c :: 16 word) = of_char c"
proof -
  have "(of_char c :: 16 word) = of_nat (of_char c)"
    by (simp add: of_nat_of_char)
  moreover have "(of_char c :: nat) < 2 ^ LENGTH(16)"
    by (rule less_trans [OF nat_of_char_less_256]) simp
  ultimately show ?thesis
    by (simp add: of_nat_inverse)
qed

text \<open>Distinct literals stay distinct as JavaScript strings.\<close>

lemma js_eq_iff: "js a = js b \<longleftrightarrow> a = b"
proof -
  have "inj (of_char :: char \<Rightarrow> 16 word)"
  proof (rule injI)
    fix c d :: char
    assume "(of_char c :: 16 word) = of_char d"
    then have "unat (of_char c :: 16 word) = unat (of_char d :: 16 word)"
      by simp
    then show "c = d"
      by (simp add: unat_js_char)
  qed
  then show ?thesis
    by (auto simp: js_def inj_map_eq_map)
qed

text \<open>Trimming leaves nothing exactly when every code unit is white space.\<close>

lemma dropWhile_twice_empty:
  "dropWhile P (rev (dropWhile P s)) = [] \<longleftrightarrow> (\<forall>c\<in>set s. P c)"
proof
  assume a: "dropWhile P (rev (dropWhile P s)) = []"
  show "\<forall>c\<in>set s. P c"
  proof (cases "dropWhile P s")
    case Nil
    then show ?thesis by (simp add: dropWhile_eq_Nil_conv)
  next
    case (Cons x xs)
    with hd_dropWhile [of P s] have "\<not> P x" by simp
    moreover from a Cons have "P x" by (simp add: dropWhile_eq_Nil_conv)
    ultimately show ?thesis by simp
  qed
next
  assume "\<forall>c\<in>set s. P c"
  then have "dropWhile P s = []" by (simp add: dropWhile_eq_Nil_conv)
  then show "dropWhile P (rev (dropWhile P s)) = []"
    by (simp only: rev.simps dropWhile.simps)
qed

lemma trim_empty_iff: "trim s = [] \<longleftrightarrow> (\<forall>c\<in>set s. isWhiteSpace c)"
  unfolding trim_def by (simp only: rev_is_Nil_conv dropWhile_twice_empty)

text \<open>\<open>numberToString\<close> writes the decimal digits of its argument, most significant first.\<close>

lemma unat_digitChar: "d < 10 \<Longrightarrow> unat (digitChar d) = 48 + d"
  unfolding digitChar_def by (rule of_nat_inverse) simp_all

lemma digitsToNumber_snoc:
  "digitsToNumber (s @ [c]) = 10 * digitsToNumber s + (unat c - 48)"
  by (simp add: digitsToNumber_def)

lemma numberToString_roundtrip: "digitsToNumber (numberToString n) = n"
proof (induction n rule: numberToString.induct)
  case (1 n)
  show ?case
  proof (cases "n < 10")
    case True
    then show ?thesis
      by (simp add: numberToString.simps [of n] digitsToNumber_def unat_digitChar)
  next
    case False
    with 1 show ?thesis
      by (simp add: numberToString.simps [of n] digitsToNumber_snoc unat_digitChar)
  qed
qed

lemma numberToString_nonempty: "numberToString n \<noteq> []"
  by (simp add: numberToString.simps [of n])

lemma isDigit_digitChar: "d < 10 \<Longrightarrow> isDigit (digitChar d)"
  by (simp add: isDigit_def word_le_nat_alt unat_digitChar)

lemma numberToString_digits: "list_all isDigit (numberToString n)"
proof (induction n rule: numberToString.induct)
  case (1 n)
  show ?case
  proof (cases "n < 10")
    case True
    then show ?thesis
      by (simp add: numberToString.simps [of n] isDigit_digitChar)
  next
    case False
    with 1 show ?thesis
      by (simp add: numberToString.simps [of n] isDigit_digitChar)
  qed
qed

lemma numberToString_hd: "0 < n \<Longrightarrow> hd (numberToString n) \<noteq> 0x30"
proof (induction n rule: numberToString.induct)
  case (1 n)
  show ?case
  proof (cases "n < 10")
    case True
    with \<open>0 < n\<close> have "unat (digitChar n) \<noteq> unat (0x30 :: 16 word)"
      by (simp add: unat_digitChar)
    then have "digitChar n \<noteq> 0x30"
      by auto
    with True show ?thesis
      by (simp add: numberToString.simps [of n])
  next
    case False
    then have "0 < n div 10"
      by simp
    with 1 False have "hd (numberToString (n div 10)) \<noteq> 0x30"
      by simp
    with False show ?thesis
      by (simp add: numberToString.simps [of n] numberToString_nonempty)
  qed
qed

lemma numberToString_zero: "numberToString 0 = [0x30]"
  by (simp add: numberToString.simps digitChar_def)

lemma readDecimal_numberToString: "readDecimal (numberToString n) = Some n"
proof (cases "numberToString n")
  case Nil
  then show ?thesis
    by (simp add: numberToString_nonempty)
next
  case (Cons c cs)
  have d: "list_all isDigit (c # cs)"
    using numberToString_digits [of n] Cons by simp
  have v: "digitsToNumber (c # cs) = n"
    using numberToString_roundtrip [of n] Cons by simp
  have "c \<noteq> 0x30 \<or> cs = []"
  proof (cases "n = 0")
    case True
    with Cons show ?thesis
      by (simp add: numberToString_zero)
  next
    case False
    with numberToString_hd [of n] Cons show ?thesis
      by simp
  qed
  with d v Cons show ?thesis
    by (simp add: readDecimal_def)
qed

lemma numberToString_three_digits:
  assumes "100 \<le> n" and "n \<le> 999"
  shows "numberToString n =
           [0x30 + of_nat (n div 100), 0x30 + of_nat (n div 10 mod 10), 0x30 + of_nat (n mod 10)]"
proof -
  from assms have a: "\<not> n < 10" and b: "\<not> n div 10 < 10" and c: "n div 10 div 10 < 10"
    by simp_all
  have "n div 10 div 10 = n div 100"
    by (simp add: div_mult2_eq [symmetric])
  with a b c show ?thesis
    by (simp add: numberToString.simps [of n] numberToString.simps [of "n div 10"]
        numberToString.simps [of "n div 100"] digitChar_def)
qed

lemma readDecimal_examples:
  "readDecimal (js ''404'') = Some 404" "readDecimal (js ''0'') = Some 0"
  "readDecimal (js ''0404'') = None" "readDecimal (js ''b3'') = None" "readDecimal [] = None"
  by (simp_all add: readDecimal_def js_def isDigit_def digitsToNumber_def)

lemma echo_numbers:
  "numberToString 0 = js ''0''" "numberToString 24000 = js ''24000''"
  "numberToString 23000 = js ''23000''" "numberToString 22000 = js ''22000''"
  by (simp_all add: numberToString.simps js_def digitChar_def)

lemma js_append: "js a @ js b = js (a @ b)"
  by (simp add: js_def)

lemma trim_sample: "trim (js ''8991234'') = js ''8991234''"
  by (simp add: trim_def js_def isWhiteSpace_def)

lemmas world_ops = toast_def setLoading_def setError_def setProducts_def catchBlock_def
  finallyBlock_def noProductsFound_def

text \<open>With a barcode that is not blank and can be encoded, the search resets and waits.\<close>

lemma searchProducts_awaiting:
  assumes "trim (barcode_state w) \<noteq> []"
    and "encodeURIComponent h (trim (barcode_state w)) = Inr q"
  shows "searchProducts h w =
           searchProducts_resume h (fetch h (endpoint @ q))
             (w\<lparr>loading := True, error := [], products_state := [],
                requests := requests w @ [endpoint @ q]\<rparr>)"
  using assms by (simp add: searchProducts_def searchProducts_start_def world_ops)

text \<open>Where the rows of the price tiers can and cannot be found.\<close>

lemma findAll_tierRows:
  "concat (map (findAll (hasClass (js ''flex justify-between text-xs'')) \<circ> tierRow h) ts) =
     map (tierRow h) ts"
  by (induction ts) (simp_all add: tierRow_def js_eq_iff)

lemma findAll_tierRows_none:
  "c \<noteq> js ''flex justify-between text-xs'' \<Longrightarrow> c \<noteq> js ''text-muted-foreground'' \<Longrightarrow>
   c \<noteq> js ''font-medium'' \<Longrightarrow>
   concat (map (findAll (hasClass c) \<circ> tierRow h) ts) = []"
  by (induction ts) (simp_all add: tierRow_def)

lemma findAll_tierRows_label:
  "concat (map (findAll (hasLabel l) \<circ> tierRow h) ts) = []"
  by (induction ts) (simp_all add: tierRow_def labelSpan_def)

lemma price2Row_no_class:
  "c \<noteq> js ''flex justify-between text-sm'' \<Longrightarrow> c \<noteq> js ''text-muted-foreground'' \<Longrightarrow>
   c \<noteq> js ''font-semibold'' \<Longrightarrow>
   findAll (hasClass c) (price2Row h p) = []"
  by (simp add: price2Row_def labelSpan_def split: optional.splits)

lemma priceTiers_no_class:
  "c \<noteq> js ''border-t pt-3'' \<Longrightarrow> c \<noteq> js ''flex items-center gap-2 mb-2'' \<Longrightarrow>
   c \<noteq> js ''h-4 w-4 text-muted-foreground'' \<Longrightarrow> c \<noteq> js ''text-sm font-medium'' \<Longrightarrow>
   c \<noteq> js ''space-y-1'' \<Longrightarrow> c \<noteq> js ''text-xs text-muted-foreground text-center'' \<Longrightarrow>
   c \<noteq> js ''flex justify-between text-xs'' \<Longrightarrow> c \<noteq> js ''text-muted-foreground'' \<Longrightarrow>
   c \<noteq> js ''font-medium'' \<Longrightarrow>
   findAll (hasClass c) (priceTiers h p) = []"
  by (simp add: priceTiers_def moreTiers_def findAll_tierRows_none split: optional.splits)

lemma priceTiers_no_label: "findAll (hasLabel l) (priceTiers h p) = []"
  by (simp add: priceTiers_def moreTiers_def labelSpan_def
      findAll_tierRows_label [unfolded labelSpan_def] split: optional.splits)

section \<open>The search\<close>

text \<open>
  Claim C1. When the response has a status from 200 to 299 and its body parses to an
  object whose \<open>products\<close> is a non-empty array, \<open>searchProducts\<close> leaves exactly the
  returned entries, in the returned order, as the product list, and the error message is
  the empty string, whatever it was before.
\<close>

theorem searchProducts_success_populates:
  assumes "trim (barcode_state w) \<noteq> []"
    and "encodeURIComponent h (trim (barcode_state w)) = Inr q"
    and "fetch h (endpoint @ q) = Response st (JsonValue data)"
    and "200 \<le> st" and "st \<le> 299"
    and "products data = Present ps" and "ps \<noteq> []"
  shows "products_state (searchProducts h w) = ps \<and> error (searchProducts h w) = []"
  using assms
  by (simp add: searchProducts_awaiting searchProducts_resume_def tryBody_def handleData_def
      ok_def world_ops)

theorem searchProducts_success_populates_witness:
  "trim (barcode_state (sampleWorld (js ''8991234''))) \<noteq> [] \<and>
   error (sampleWorld (js ''8991234'')) \<noteq> [] \<and>
   products_state
     (searchProducts
        (sampleHost (Response 200
           (JsonValue (sampleBody (Present [sampleProduct\<lparr>stock := 0\<rparr>, sampleProduct])))))
        (sampleWorld (js ''8991234''))) = [sampleProduct\<lparr>stock := 0\<rparr>, sampleProduct] \<and>
   error
     (searchProducts
        (sampleHost (Response 200
           (JsonValue (sampleBody (Present [sampleProduct\<lparr>stock := 0\<rparr>, sampleProduct])))))
        (sampleWorld (js ''8991234''))) = []"
  using searchProducts_success_populates [of "sampleWorld (js ''8991234'')"
      "sampleHost (Response 200
         (JsonValue (sampleBody (Present [sampleProduct\<lparr>stock := 0\<rparr>, sampleProduct]))))"
      "js ''8991234''" 200 "sampleBody (Present [sampleProduct\<lparr>stock := 0\<rparr>, sampleProduct])"
      "[sampleProduct\<lparr>stock := 0\<rparr>, sampleProduct]"]
  by (simp add: sampleWorld_def sampleHost_def sampleBody_def trim_sample js_eq_Nil_iff)

text \<open>
  Claim C2. When the barcode is empty after trimming, which is the case exactly when all
  its code units are white space, \<open>searchProducts\<close> shows the validation warning and
  returns before any request: the only change is the added warning, so the requests, the
  loading flag, the error message and the product list are as before.
\<close>

theorem searchProducts_blank_barcode:
  assumes "trim (barcode_state w) = [] \<or> (\<forall>c\<in>set (barcode_state w). isWhiteSpace c)"
  shows "searchProducts h w =
           w\<lparr>toasts := toasts w @
               [\<lparr>title = js ''Please enter a barcode'',
                 description = js ''Enter a product barcode to search'',
                 variant = Some (js ''destructive'')\<rparr>]\<rparr> \<and>
         searchProducts_start h w = Returned (searchProducts h w) \<and>
         requests (searchProducts h w) = requests w \<and>
         loading (searchProducts h w) = loading w \<and>
         error (searchProducts h w) = error w \<and>
         products_state (searchProducts h w) = products_state w"
proof -
  from assms have "trim (barcode_state w) = []"
    by (simp add: trim_empty_iff)
  then show ?thesis
    by (simp add: searchProducts_def searchProducts_start_def toast_def emptyBarcodeToast_def)
qed

theorem searchProducts_blank_barcode_witness:
  "trim (barcode_state (sampleWorld [0x20, 0x09, 0x3000, 0xA0, 0x0A])) = [] \<and>
   toasts (searchProducts (sampleHost (FetchRejects OtherValue))
       (sampleWorld [0x20, 0x09, 0x3000, 0xA0, 0x0A])) =
     [\<lparr>title = js ''Please enter a barcode'',
       description = js ''Enter a product barcode to search'',
       variant = Some (js ''destructive'')\<rparr>] \<and>
   requests (searchProducts (sampleHost (FetchRejects OtherValue))
       (sampleWorld [0x20, 0x09, 0x3000, 0xA0, 0x0A])) = [] \<and>
   error (searchProducts (sampleHost (FetchRejects OtherValue))
       (sampleWorld [0x20, 0x09, 0x3000, 0xA0, 0x0A])) =
     js ''No products found for this barcode''"
  using searchProducts_blank_barcode [of "sampleWorld [0x20, 0x09, 0x3000, 0xA0, 0x0A]"
      "sampleHost (FetchRejects OtherValue)"]
  by (simp add: sampleWorld_def trim_empty_iff isWhiteSpace_def)

text \<open>
  Claim C3. When the response has a status outside 200 to 299, \<open>searchProducts\<close> ends
  in the error state: the product list is empty, loading is over, and the error message
  is \<open>HTTP error! status: \<close> followed by the decimal numeral of the status code: code
  units \<open>0\<close> to \<open>9\<close> only, which the strict reader reads as that code. For a status
  of three digits the three code units are given one by one.
\<close>

theorem searchProducts_http_error:
  assumes "trim (barcode_state w) \<noteq> []"
    and "encodeURIComponent h (trim (barcode_state w)) = Inr q"
    and "fetch h (endpoint @ q) = Response st body"
    and "st < 200 \<or> 299 < st"
  shows "products_state (searchProducts h w) = [] \<and>
         error (searchProducts h w) = js ''HTTP error! status: '' @ numberToString st \<and>
         take 20 (error (searchProducts h w)) = js ''HTTP error! status: '' \<and>
         list_all (\<lambda>c. 0x30 \<le> c \<and> c \<le> 0x39) (drop 20 (error (searchProducts h w))) \<and>
         readDecimal (drop 20 (error (searchProducts h w))) = Some st \<and>
         (100 \<le> st \<and> st \<le> 999 \<longrightarrow>
            error (searchProducts h w) =
              js ''HTTP error! status: '' @
              [0x30 + of_nat (st div 100), 0x30 + of_nat (st div 10 mod 10),
               0x30 + of_nat (st mod 10)]) \<and>
         error (searchProducts h w) \<noteq> [] \<and>
         \<not> loading (searchProducts h w)"
proof -
  have len: "length (js ''HTTP error! status: '') = 20"
    by (simp add: js_def)
  from assms(4) have "\<not> ok st"
    by (auto simp: ok_def)
  with assms(1-3) have
    e: "error (searchProducts h w) = js ''HTTP error! status: '' @ numberToString st"
    and p: "products_state (searchProducts h w) = []"
    and l: "\<not> loading (searchProducts h w)"
    by (simp_all add: searchProducts_awaiting searchProducts_resume_def tryBody_def world_ops
        Let_def)
  from e len have t: "take 20 (error (searchProducts h w)) = js ''HTTP error! status: ''"
    and d: "drop 20 (error (searchProducts h w)) = numberToString st"
    by simp_all
  have g: "list_all (\<lambda>c. 0x30 \<le> c \<and> c \<le> 0x39) (numberToString st)"
    using numberToString_digits [of st] by (simp add: isDigit_def [abs_def])
  have r: "readDecimal (numberToString st) = Some st"
    by (rule readDecimal_numberToString)
  have x: "100 \<le> st \<and> st \<le> 999 \<longrightarrow>
            error (searchProducts h w) =
              js ''HTTP error! status: '' @
              [0x30 + of_nat (st div 100), 0x30 + of_nat (st div 10 mod 10),
               0x30 + of_nat (st mod 10)]"
    using e by (simp add: numberToString_three_digits)
  from e have n: "error (searchProducts h w) \<noteq> []"
    by (simp add: numberToString_nonempty)
  from e p l t g r x n show ?thesis
    unfolding d by blast
qed

theorem searchProducts_http_error_witness:
  "trim (barcode_state (sampleWorld (js ''8991234''))) \<noteq> [] \<and>
   299 < (404::nat) \<and>
   products_state (searchProducts (sampleHost (Response 404 (JsonRejects OtherValue)))
       (sampleWorld (js ''8991234''))) = [] \<and>
   error (searchProducts (sampleHost (Response 404 (JsonRejects OtherValue)))
       (sampleWorld (js ''8991234''))) = js ''HTTP error! status: 404'' \<and>
   error (searchProducts (sampleHost (Response 503 (JsonRejects OtherValue)))
       (sampleWorld (js ''8991234''))) = js ''HTTP error! status: 503''"
proof -
  have t: "trim (barcode_state (sampleWorld (js ''8991234''))) \<noteq> []"
    by (simp add: sampleWorld_def trim_sample js_eq_Nil_iff)
  have q: "encodeURIComponent (sampleHost out) (trim (barcode_state (sampleWorld (js ''8991234'')))) =
      Inr (js ''8991234'')" for out
    by (simp add: sampleWorld_def sampleHost_def trim_sample)
  have f: "fetch (sampleHost out) u = out" for out u
    by (simp add: sampleHost_def)
  have a: "js ''HTTP error! status: '' @ numberToString 404 = js ''HTTP error! status: 404''"
    by (simp add: numberToString.simps js_def digitChar_def)
  have b: "js ''HTTP error! status: '' @ numberToString 503 = js ''HTTP error! status: 503''"
    by (simp add: numberToString.simps js_def digitChar_def)
  from searchProducts_http_error [OF t q f, of 404 "JsonRejects OtherValue"]
  have 1: "products_state (searchProducts (sampleHost (Response 404 (JsonRejects OtherValue)))
       (sampleWorld (js ''8991234''))) = []"
    and 2: "error (searchProducts (sampleHost (Response 404 (JsonRejects OtherValue)))
       (sampleWorld (js ''8991234''))) = js ''HTTP error! status: 404''"
    using a by simp_all
  from searchProducts_http_error [OF t q f, of 503 "JsonRejects OtherValue"]
  have 3: "error (searchProducts (sampleHost (Response 503 (JsonRejects OtherValue)))
       (sampleWorld (js ''8991234''))) = js ''HTTP error! status: 503''"
    using b by simp
  from t 1 2 3 show ?thesis
    by simp
qed

text \<open>
  Claim C4. When the response has a status from 200 to 299 and its body parses to an
  object whose \<open>products\<close> is an empty array, \<open>searchProducts\<close> leaves the product
  list empty and sets the error message to \<open>No products found for this barcode\<close>.
\<close>

theorem searchProducts_empty_result:
  assumes "trim (barcode_state w) \<noteq> []"
    and "encodeURIComponent h (trim (barcode_state w)) = Inr q"
    and "fetch h (endpoint @ q) = Response st (JsonValue data)"
    and "200 \<le> st" and "st \<le> 299"
    and "products data = Present []"
  shows "products_state (searchProducts h w) = [] \<and>
         error (searchProducts h w) = js ''No products found for this barcode''"
  using assms
  by (simp add: searchProducts_awaiting searchProducts_resume_def tryBody_def handleData_def
      ok_def world_ops)

theorem searchProducts_empty_result_witness:
  "trim (barcode_state (sampleWorld (js ''8991234''))) \<noteq> [] \<and>
   products_state (searchProducts (sampleHost (Response 200 (JsonValue (sampleBody (Present [])))))
       (sampleWorld (js ''8991234''))) = [] \<and>
   error (searchProducts (sampleHost (Response 200 (JsonValue (sampleBody (Present [])))))
       (sampleWorld (js ''8991234''))) = js ''No products found for this barcode''"
  using searchProducts_empty_result [of "sampleWorld (js ''8991234'')"
      "sampleHost (Response 200 (JsonValue (sampleBody (Present []))))"
      "js ''8991234''" 200 "sampleBody (Present [])"]
  by (simp add: sampleWorld_def sampleHost_def sampleBody_def trim_sample js_eq_Nil_iff)

text \<open>
  Claim C6. When the trimmed barcode is not empty, the search state is reset first: at
  the point where the request has been issued the flag is set, the error message is
  empty and the product list is empty, and the outcome of the search does not depend on
  the product list, error message and loading flag it started from. When the invocation
  has completed the loading flag is false, whatever \<open>encodeURIComponent\<close>, \<open>fetch\<close>
  and the parsing of the body did: results, no results, a status outside 200 to 299, or
  a thrown error.
\<close>

theorem searchProducts_reset_and_loading:
  assumes "trim (barcode_state w) \<noteq> []"
  shows "(case searchProducts_start h w of
            AwaitingFetch url w1 \<Rightarrow>
              loading w1 \<and> error w1 = [] \<and> products_state w1 = [] \<and>
              searchProducts h w = searchProducts_resume h (fetch h url) w1
          | Returned w1 \<Rightarrow> products_state w1 = [] \<and> \<not> loading w1) \<and>
         searchProducts h (w\<lparr>products_state := ps, error := e, loading := l\<rparr>) =
           searchProducts h w \<and>
         \<not> loading (searchProducts h w)"
  using assms
  by (auto simp: searchProducts_def searchProducts_start_def searchProducts_resume_def
      tryBody_def handleData_def world_ops Let_def
      split: sum.splits fetch_outcome.splits json_outcome.splits optional.splits thrown.splits)

theorem searchProducts_reset_and_loading_witness:
  "trim (barcode_state ((sampleWorld (js ''8991234''))\<lparr>loading := True\<rparr>)) \<noteq> [] \<and>
   \<not> loading (searchProducts (sampleHost (FetchRejects (ErrorObject (js ''Failed to fetch''))))
       ((sampleWorld (js ''8991234''))\<lparr>loading := True\<rparr>)) \<and>
   searchProducts_start (sampleHost (FetchRejects (ErrorObject (js ''Failed to fetch''))))
       ((sampleWorld (js ''8991234''))\<lparr>loading := True\<rparr>) =
     AwaitingFetch (endpoint @ js ''8991234'')
       \<lparr>barcode_state = js ''8991234'', products_state = [], loading = True, error = [],
        toasts = [], requests = [endpoint @ js ''8991234'']\<rparr>"
proof -
  have t: "trim (barcode_state ((sampleWorld (js ''8991234''))\<lparr>loading := True\<rparr>)) \<noteq> []"
    by (simp add: sampleWorld_def trim_sample js_eq_Nil_iff)
  have s: "searchProducts_start
      (sampleHost (FetchRejects (ErrorObject (js ''Failed to fetch''))))
      ((sampleWorld (js ''8991234''))\<lparr>loading := True\<rparr>) =
     AwaitingFetch (endpoint @ js ''8991234'')
       \<lparr>barcode_state = js ''8991234'', products_state = [], loading = True, error = [],
        toasts = [], requests = [endpoint @ js ''8991234'']\<rparr>"
    by (simp add: sampleWorld_def sampleHost_def trim_sample js_eq_Nil_iff
        searchProducts_start_def world_ops)
  from searchProducts_reset_and_loading [OF t,
      of "sampleHost (FetchRejects (ErrorObject (js ''Failed to fetch'')))"]
  have "\<not> loading
      (searchProducts (sampleHost (FetchRejects (ErrorObject (js ''Failed to fetch''))))
         ((sampleWorld (js ''8991234''))\<lparr>loading := True\<rparr>))"
    by blast
  with t s show ?thesis
    by blast
qed

text \<open>
  Claim C10, as stated, for every body without a \<open>products\<close> field, fails for the body
  \<open>null\<close>: reading \<open>data.products\<close> throws, and the \<open>catch\<close> block reports the
  engine's message as a failed search.
\<close>

theorem searchProducts_null_body_counterexample:
  "trim (barcode_state (sampleWorld (js ''8991234''))) = js ''8991234'' \<and>
   fetch (sampleHost (Response 200 JsonNull)) (endpoint @ js ''8991234'') = Response 200 JsonNull \<and>
   tryBody (sampleHost (Response 200 JsonNull)) (Response 200 JsonNull)
       (sampleWorld (js ''8991234'')) =
     Inl (ErrorObject (js ''Cannot read properties of null'')) \<and>
   error (searchProducts (sampleHost (Response 200 JsonNull)) (sampleWorld (js ''8991234''))) =
     js ''Cannot read properties of null'' \<and>
   error (searchProducts (sampleHost (Response 200 JsonNull)) (sampleWorld (js ''8991234''))) \<noteq>
     js ''No products found for this barcode'' \<and>
   toasts (searchProducts (sampleHost (Response 200 JsonNull)) (sampleWorld (js ''8991234''))) =
     [\<lparr>title = js ''Search failed'', description = js ''Cannot read properties of null'',
       variant = Some (js ''destructive'')\<rparr>]"
  by (simp add: searchProducts_def searchProducts_start_def searchProducts_resume_def tryBody_def
      ok_def world_ops sampleWorld_def sampleHost_def trim_sample js_eq_Nil_iff js_eq_iff Let_def)

text \<open>
  Claim C10, amended. When the response has a status from 200 to 299 and its body parses
  to a value other than \<open>null\<close> that has no \<open>products\<close> field, or has that field
  null, nothing is thrown: \<open>searchProducts\<close> does what it does for an empty array,
  leaving the product list empty and setting the error message to
  \<open>No products found for this barcode\<close>.
\<close>

theorem searchProducts_missing_products:
  assumes "trim (barcode_state w) \<noteq> []"
    and "encodeURIComponent h (trim (barcode_state w)) = Inr q"
    and "fetch h (endpoint @ q) = Response st (JsonValue data)"
    and "200 \<le> st" and "st \<le> 299"
    and "products data = Undefined \<or> products data = Null"
  shows "tryBody h (fetch h (endpoint @ q)) w' =
           Inr (handleData (data\<lparr>products := Present []\<rparr>) w') \<and>
         searchProducts
           (h\<lparr>fetch := \<lambda>url. Response st (JsonValue (data\<lparr>products := Present []\<rparr>))\<rparr>) w =
           searchProducts h w \<and>
         products_state (searchProducts h w) = [] \<and>
         error (searchProducts h w) = js ''No products found for this barcode''"
  using assms
  by (auto simp: searchProducts_awaiting searchProducts_resume_def tryBody_def handleData_def
      ok_def world_ops)

theorem searchProducts_missing_products_witness:
  "trim (barcode_state (sampleWorld (js ''8991234''))) \<noteq> [] \<and>
   products (sampleBody Null) = Null \<and>
   products_state (searchProducts (sampleHost (Response 200 (JsonValue (sampleBody Null))))
       (sampleWorld (js ''8991234''))) = [] \<and>
   error (searchProducts (sampleHost (Response 200 (JsonValue (sampleBody Null))))
       (sampleWorld (js ''8991234''))) = js ''No products found for this barcode''"
  using searchProducts_missing_products [of "sampleWorld (js ''8991234'')"
      "sampleHost (Response 200 (JsonValue (sampleBody Null)))"
      "js ''8991234''" 200 "sampleBody Null"]
  by (simp add: sampleWorld_def sampleHost_def sampleBody_def trim_sample js_eq_Nil_iff)

section \<open>The product card\<close>

text \<open>
  Claim C5. For a product whose \<open>price_tiers\<close> list has length \<open>L\<close>, the tier rows in
  its card are exactly the rows of the first \<open>min L 3\<close> tiers, in order, each showing the
  quantity and the formatted price of its tier, so no later tier has a row of its own; and
  the card has the indicator \<open>+N more tiers\<close> if and only if \<open>3 < L\<close>, with
  \<open>N = L - 3\<close>.
\<close>

theorem productCard_price_tiers:
  assumes "price_tiers product = Present tiers"
  shows "findAll (hasClass (js ''flex justify-between text-xs'')) (productCard h product) =
           map (\<lambda>tier.
                  Element ''div'' (js ''flex justify-between text-xs'')
                    [Element ''span'' (js ''text-muted-foreground'')
                       [Number (qty tier), Text (js ''+ units:'')],
                     Element ''span'' (js ''font-medium'')
                       [Text (numberFormat h (js ''id-ID'')
                                \<lparr>style = js ''currency'', currency = js ''IDR'',
                                 minimumFractionDigits = 0\<rparr>
                                (price tier))]])
             (take (min (length tiers) 3) tiers) \<and>
         findAll (hasClass (js ''text-xs text-muted-foreground text-center''))
             (productCard h product) =
           (if 3 < length tiers
            then [Element ''div'' (js ''text-xs text-muted-foreground text-center'')
                    [Text (js ''+''), Number (of_nat (length tiers - 3)), Text (js '' more tiers'')]]
            else [])"
proof -
  have r: "tierRow h = (\<lambda>tier.
                  Element ''div'' (js ''flex justify-between text-xs'')
                    [Element ''span'' (js ''text-muted-foreground'')
                       [Number (qty tier), Text (js ''+ units:'')],
                     Element ''span'' (js ''font-medium'')
                       [Text (numberFormat h (js ''id-ID'')
                                \<lparr>style = js ''currency'', currency = js ''IDR'',
                                 minimumFractionDigits = 0\<rparr>
                                (price tier))]])"
    by (rule ext) (simp add: tierRow_def formatPrice_def)
  have "findAll (hasClass (js ''flex justify-between text-xs'')) (productCard h product) =
          map (tierRow h) (take (min (length tiers) 3) tiers)"
    using assms
    by (simp add: productCard_def priceTiers_def stockSpan_def labelSpan_def moreTiers_def
        slice_def price2Row_no_class findAll_tierRows js_eq_iff js_append)
  moreover have "findAll (hasClass (js ''text-xs text-muted-foreground text-center''))
          (productCard h product) =
        (if 3 < length tiers
            then [Element ''div'' (js ''text-xs text-muted-foreground text-center'')
                    [Text (js ''+''), Number (of_nat (length tiers - 3)), Text (js '' more tiers'')]]
            else [])"
    using assms
    by (simp add: productCard_def priceTiers_def stockSpan_def labelSpan_def moreTiers_def
        slice_def price2Row_no_class findAll_tierRows_none js_eq_iff js_append)
  ultimately show ?thesis
    unfolding r by simp
qed

theorem productCard_price_tiers_witness:
  "price_tiers (sampleProduct\<lparr>price_tiers := Present sampleTiers\<rparr>) = Present sampleTiers \<and>
   findAll (hasClass (js ''flex justify-between text-xs''))
     (productCard echoHost (sampleProduct\<lparr>price_tiers := Present sampleTiers\<rparr>)) =
     [Element ''div'' (js ''flex justify-between text-xs'')
        [Element ''span'' (js ''text-muted-foreground'') [Number 6, Text (js ''+ units:'')],
         Element ''span'' (js ''font-medium'') [Text (js ''id-ID currency IDR 0 24000'')]],
      Element ''div'' (js ''flex justify-between text-xs'')
        [Element ''span'' (js ''text-muted-foreground'') [Number 12, Text (js ''+ units:'')],
         Element ''span'' (js ''font-medium'') [Text (js ''id-ID currency IDR 0 23000'')]],
      Element ''div'' (js ''flex justify-between text-xs'')
        [Element ''span'' (js ''text-muted-foreground'') [Number 24, Text (js ''+ units:'')],
         Element ''span'' (js ''font-medium'') [Text (js ''id-ID currency IDR 0 22000'')]]] \<and>
   findAll (hasClass (js ''text-xs text-muted-foreground text-center''))
     (productCard echoHost (sampleProduct\<lparr>price_tiers := Present sampleTiers\<rparr>)) =
     [Element ''div'' (js ''text-xs text-muted-foreground text-center'')
        [Text (js ''+''), Number 2, Text (js '' more tiers'')]] \<and>
   findAll (hasClass (js ''text-xs text-muted-foreground text-center''))
     (productCard echoHost (sampleProduct\<lparr>price_tiers := Present (take 3 sampleTiers)\<rparr>)) = []"
  using productCard_price_tiers [of "sampleProduct\<lparr>price_tiers := Present sampleTiers\<rparr>" sampleTiers echoHost]
    productCard_price_tiers [of "sampleProduct\<lparr>price_tiers := Present (take 3 sampleTiers)\<rparr>" "take 3 sampleTiers" echoHost]
  by (simp add: sampleTiers_def echoHost_def echo_numbers js_append)

text \<open>
  Claim C8. In the card of a product, the stock count sits in a span of the destructive
  style if and only if the stock is zero; otherwise it sits in a span of the green style.
  No other element of the card has either style.
\<close>

theorem productCard_stock_style:
  "findAll (hasClass (js ''font-semibold text-destructive'')) (productCard h product) =
     (if stock product = 0
      then [Element ''span'' (js ''font-semibold text-destructive'')
              [Number (stock product), Text (js '' units'')]]
      else []) \<and>
   findAll (hasClass (js ''font-semibold text-green-600'')) (productCard h product) =
     (if stock product = 0 then []
      else [Element ''span'' (js ''font-semibold text-green-600'')
              [Number (stock product), Text (js '' units'')]])"
proof -
  have a: "findAll (hasClass (js ''font-semibold text-destructive'')) (priceTiers h product) = []"
    by (simp add: priceTiers_no_class js_eq_iff)
  have b: "findAll (hasClass (js ''font-semibold text-green-600'')) (priceTiers h product) = []"
    by (simp add: priceTiers_no_class js_eq_iff)
  have "findAll (hasClass (js ''font-semibold text-destructive'')) (productCard h product) =
     (if stock product = 0
      then [Element ''span'' (js ''font-semibold text-destructive'')
              [Number (stock product), Text (js '' units'')]]
      else [])"
    by (simp add: productCard_def stockSpan_def labelSpan_def price2Row_no_class a
        js_eq_iff js_append)
  moreover have
    "findAll (hasClass (js ''font-semibold text-green-600'')) (productCard h product) =
     (if stock product = 0 then []
      else [Element ''span'' (js ''font-semibold text-green-600'')
              [Number (stock product), Text (js '' units'')]])"
    by (simp add: productCard_def stockSpan_def labelSpan_def price2Row_no_class b
        js_eq_iff js_append)
  ultimately show ?thesis by simp
qed

theorem productCard_stock_style_witness:
  "findAll (hasClass (js ''font-semibold text-destructive''))
     (productCard (sampleHost (FetchRejects OtherValue)) (sampleProduct\<lparr>stock := 0\<rparr>)) =
     [Element ''span'' (js ''font-semibold text-destructive'') [Number 0, Text (js '' units'')]] \<and>
   findAll (hasClass (js ''font-semibold text-green-600''))
     (productCard (sampleHost (FetchRejects OtherValue)) (sampleProduct\<lparr>stock := 0\<rparr>)) = [] \<and>
   findAll (hasClass (js ''font-semibold text-destructive''))
     (productCard (sampleHost (FetchRejects OtherValue)) sampleProduct) = [] \<and>
   findAll (hasClass (js ''font-semibold text-green-600''))
     (productCard (sampleHost (FetchRejects OtherValue)) sampleProduct) =
     [Element ''span'' (js ''font-semibold text-green-600'') [Number 12, Text (js '' units'')]]"
  using productCard_stock_style [of "sampleHost (FetchRejects OtherValue)" "sampleProduct\<lparr>stock := 0\<rparr>"]
    productCard_stock_style [of "sampleHost (FetchRejects OtherValue)" sampleProduct]
  by (simp add: sampleProduct_def)

text \<open>
  Claim C9. In the card of a product, the row labelled \<open>Price 2:\<close> is there if and only if
  \<open>selling_price_2\<close> is present and truthy, that is, a number other than zero; in
  particular a product whose \<open>selling_price_2\<close> is 0 has no such row.
\<close>

theorem productCard_price2_row:
  "findAll (hasLabel ''Price 2:'') (productCard h product) =
     (case selling_price_2 product of
        Present v \<Rightarrow>
          if v \<noteq> 0
          then [Element ''div'' (js ''flex justify-between text-sm'')
                  [labelSpan ''Price 2:'',
                   Element ''span'' (js ''font-semibold'') [Text (formatPrice h v)]]]
          else []
      | _ \<Rightarrow> []) \<and>
   (selling_price_2 product = Present 0 \<longrightarrow>
      findAll (hasLabel ''Price 2:'') (productCard h product) = [])"
proof -
  have "findAll (hasLabel ''Price 2:'') (productCard h product) =
     (case selling_price_2 product of
        Present v \<Rightarrow>
          if v \<noteq> 0
          then [Element ''div'' (js ''flex justify-between text-sm'')
                  [labelSpan ''Price 2:'',
                   Element ''span'' (js ''font-semibold'') [Text (formatPrice h v)]]]
          else []
      | _ \<Rightarrow> [])"
    by (simp add: productCard_def stockSpan_def price2Row_def labelSpan_def js_eq_iff
        priceTiers_no_label split: optional.splits)
  then show ?thesis by simp
qed

theorem productCard_price2_row_witness:
  "selling_price_2 (sampleProduct\<lparr>selling_price_2 := Present 0\<rparr>) = Present 0 \<and>
   findAll (hasLabel ''Price 2:'')
     (productCard (sampleHost (FetchRejects OtherValue))
        (sampleProduct\<lparr>selling_price_2 := Present 0\<rparr>)) = [] \<and>
   findAll (hasLabel ''Price 2:'')
     (productCard (sampleHost (FetchRejects OtherValue))
        (sampleProduct\<lparr>selling_price_2 := Present 27000\<rparr>)) =
     [Element ''div'' (js ''flex justify-between text-sm'')
        [labelSpan ''Price 2:'', Element ''span'' (js ''font-semibold'') [Text (js ''Rp'')]]]"
  using productCard_price2_row [of "sampleHost (FetchRejects OtherValue)"
      "sampleProduct\<lparr>selling_price_2 := Present 0\<rparr>"]
    productCard_price2_row [of "sampleHost (FetchRejects OtherValue)"
      "sampleProduct\<lparr>selling_price_2 := Present 27000\<rparr>"]
  by (simp add: sampleHost_def formatPrice_def)

end
